theory Spec2Isabelle
  imports Main "HOL-Library.Multiset" "HOL-Library.AList"
begin

section \<open>Errors and status conditions\<close>

text \<open>
  Go \<open>error\<close> values returned by the Kubernetes client.  The functions of
  \<open>pkg/deployment/ipam.go\<close> never inspect an error, they only pass it on, so an
  error is an opaque value here.
\<close>

datatype err = NotFound | ApiError string

text \<open>
  Modelled from the spec: the condition list (\<open>condition.Conditions\<close> of lib-common)
  is declared outside the sources at hand.  It is a collection of condition records with
  upsert-by-name semantics, last write wins.  \<open>MarkTrue\<close> and \<open>MarkFalse\<close> store the
  record under its type, \<open>Remove\<close> deletes the entry, \<open>IsTrue\<close> and \<open>IsFalse\<close> hold
  only for an entry that exists with that status.
\<close>

datatype CondType =
  ReadyCondition
  | NodeSetIPReservationReadyCondition
  | NodeSetDNSDataReadyCondition

datatype ConditionStatus = ConditionTrue | ConditionFalse | ConditionUnknown

datatype Reason = ReadyReason | RequestedReason | ErrorReason

datatype Severity = SeverityError | SeverityWarning | SeverityInfo | SeverityNone

datatype Message =
  NodeSetIPReservationReadyMessage
  | NodeSetIPReservationReadyWaitingMessage
  | NodeSetIPReservationReadyErrorMessage
  | NodeSetDNSDataReadyMessage
  | NodeSetDNSDataReadyWaitingMessage
  | NodeSetDNSDataReadyErrorMessage
  | OtherMessage string

record Condition =
  Status :: ConditionStatus
  Reason :: Reason
  Severity :: Severity
  Message :: Message

type_synonym Conditions = "CondType \<rightharpoonup> Condition"

definition MarkTrue :: "CondType \<Rightarrow> Message \<Rightarrow> Conditions \<Rightarrow> Conditions" where
  "MarkTrue t msg cs =
     cs(t \<mapsto> \<lparr>Status = ConditionTrue, Reason = ReadyReason, Severity = SeverityNone,
              Message = msg\<rparr>)"

definition MarkFalse ::
  "CondType \<Rightarrow> Reason \<Rightarrow> Severity \<Rightarrow> Message \<Rightarrow> Conditions \<Rightarrow> Conditions" where
  "MarkFalse t reason severity msg cs =
     cs(t \<mapsto> \<lparr>Status = ConditionFalse, Reason = reason, Severity = severity,
              Message = msg\<rparr>)"

definition Remove :: "CondType \<Rightarrow> Conditions \<Rightarrow> Conditions" where
  "Remove t cs = cs(t := None)"

definition IsTrue :: "Conditions \<Rightarrow> CondType \<Rightarrow> bool" where
  "IsTrue cs t = (case cs t of None \<Rightarrow> False | Some c \<Rightarrow> Status c = ConditionTrue)"

definition IsFalse :: "Conditions \<Rightarrow> CondType \<Rightarrow> bool" where
  "IsFalse cs t = (case cs t of None \<Rightarrow> False | Some c \<Rightarrow> Status c = ConditionFalse)"

text \<open>
  Modelled from the spec: the four named states of a feature condition on the parent
  (section 4.6).  An absent entry is NotApplicable; an entry with status True is Ready;
  a False entry is Error or Waiting by its reason.  Any other entry has no named state.
\<close>

datatype CondState = CondNotApplicable | CondWaiting | CondError | CondReady

definition condState :: "Conditions \<Rightarrow> CondType \<Rightarrow> CondState option" where
  "condState cs t =
     (case cs t of
        None \<Rightarrow> Some CondNotApplicable
      | Some c \<Rightarrow>
          if Status c = ConditionTrue then Some CondReady
          else if Status c = ConditionFalse \<and> Reason c = ErrorReason then Some CondError
          else if Status c = ConditionFalse \<and> Reason c = RequestedReason then Some CondWaiting
          else None)"

section \<open>Resources\<close>

text \<open>
  Modelled from the spec: the resource types come from the API packages, which are not
  among the sources; they follow sections 3 and 6, with the field names the code uses.
  A Go slice that the code compares with \<open>nil\<close> is an option: \<open>None\<close> is \<open>nil\<close>.
\<close>

record IPSetNetwork =
  net_Name :: string
  net_FixedIP :: "string option"

record IPSetReservation =
  Network :: string
  Address :: string
  DNSDomain :: string

record IPSet =
  ipset_Networks :: "IPSetNetwork list"
  Reservation :: "IPSetReservation list"
  ipset_Conditions :: Conditions

record DNSMasq =
  dnsmasq_IsReady :: bool
  DNSClusterAddresses :: "string list option"
  DNSAddresses :: "string list option"

record DNSHost =
  host_IP :: string
  host_Hostnames :: "string list"

record DNSData =
  Hosts :: "DNSHost list"
  DNSDataLabelSelectorValue :: string
  dnsdata_IsReady :: bool

record NodeSection =
  HostName :: string
  Networks :: "IPSetNetwork list"

text \<open>
  The node set: \<open>Nodes\<close> is listed in the order in which the \<open>range\<close> loops of the
  code visit the nodes; \<open>StatusConditions\<close> is \<open>instance.Status.Conditions\<close>.
\<close>

record NodeSet =
  Name :: string
  Nodes :: "NodeSection list"
  NodeTemplate_Networks :: "IPSetNetwork list"
  StatusConditions :: Conditions

text \<open>
  A Go \<open>map[string]IPSet\<close> is an association list with distinct keys; the \<open>nil\<close> map
  and the empty map are both \<open>[]\<close> (they read the same, and \<open>len\<close> is 0 for both).
\<close>

type_synonym IPSetMap = "(string \<times> IPSet) list"

section \<open>The cluster behind the client\<close>

text \<open>
  Every \<open>CreateOrPatch\<close> the code issues is recorded as a request, whether or not it
  changes the store.
\<close>

datatype request =
  UpsertIPSet string "IPSetNetwork list"
  | UpsertDNSData string "DNSHost list"

text \<open>
  The state the client reads and writes.  \<open>netConfigList\<close> is the result of listing
  the NetConfig resources (an error, or the number of items), \<open>dnsmasqList\<close> the result
  of listing DNSMasq.  \<open>upsertErr\<close> decides, from the requests made so far and the
  request at hand, whether a \<open>CreateOrPatch\<close> fails; \<open>getDNSDataErr\<close> whether the Get
  of the DNSData resource fails.
\<close>

record cluster =
  netConfigList :: "err + nat"
  dnsmasqList :: "err + DNSMasq list"
  ipSets :: "string \<rightharpoonup> IPSet"
  dnsDatas :: "string \<rightharpoonup> DNSData"
  upsertErr :: "request list \<Rightarrow> request \<Rightarrow> err option"
  getDNSDataErr :: "err option"
  requests :: "request list"

text \<open>
  \<open>controllerutil.CreateOrPatch\<close> on an IPSet named \<open>name\<close>, with the mutation
  \<open>ipSet.Spec.Networks = nets\<close>.  On failure nothing is written.  On success the object
  is created (with an empty status) or its spec is patched, and the caller's \<open>ipSet\<close>
  holds the stored object.
\<close>

definition newIPSet :: IPSet where
  "newIPSet = \<lparr>ipset_Networks = [], Reservation = [], ipset_Conditions = Map.empty\<rparr>"

definition CreateOrPatchIPSet ::
  "cluster \<Rightarrow> string \<Rightarrow> IPSetNetwork list \<Rightarrow> cluster \<times> (err + IPSet)" where
  "CreateOrPatchIPSet c name nets =
     (let rq = UpsertIPSet name nets;
          c1 = c\<lparr>requests := requests c @ [rq]\<rparr>
      in case upsertErr c (requests c) rq of
           Some e \<Rightarrow> (c1, Inl e)
         | None \<Rightarrow>
             (let ipSet = (case ipSets c name of None \<Rightarrow> newIPSet | Some s \<Rightarrow> s)
                            \<lparr>ipset_Networks := nets\<rparr>
              in (c1\<lparr>ipSets := (ipSets c)(name \<mapsto> ipSet)\<rparr>, Inr ipSet)))"

section \<open>reserveIPs and EnsureIPSets\<close>

text \<open>
  The loop of \<open>reserveIPs\<close> over \<open>instance.Spec.Nodes\<close>; \<open>tmpl\<close> is
  \<open>instance.Spec.NodeTemplate.Networks\<close>.  The loop state is the cluster, the flag
  \<open>ipamUsed\<close> and the map \<open>allIPSets\<close>.  A failing upsert returns at once.
\<close>

fun reserveNodes ::
  "IPSetNetwork list \<Rightarrow> NodeSection list \<Rightarrow> cluster \<Rightarrow> bool \<Rightarrow> IPSetMap
     \<Rightarrow> cluster \<times> (err + bool \<times> IPSetMap)" where
  "reserveNodes tmpl [] c ipamUsed allIPSets = (c, Inr (ipamUsed, allIPSets))"
| "reserveNodes tmpl (node # rest) c ipamUsed allIPSets =
     (let nets0 = Networks node;
          hostName = HostName node;
          nets = (if length nets0 = 0 then tmpl else nets0)
      in if length nets > 0 then
           (case CreateOrPatchIPSet c hostName nets of
              (c', Inl e) \<Rightarrow> (c', Inl e)
            | (c', Inr ipSet) \<Rightarrow>
                reserveNodes tmpl rest c' True (AList.update hostName ipSet allIPSets))
         else reserveNodes tmpl rest c ipamUsed allIPSets)"

definition reserveIPs :: "cluster \<Rightarrow> NodeSet \<Rightarrow> cluster \<times> NodeSet \<times> (err + IPSetMap)" where
  "reserveIPs c instance =
     (case netConfigList c of
        Inl e \<Rightarrow> (c, instance, Inl e)
      | Inr n \<Rightarrow>
          if n = 0 then
            (c, instance\<lparr>StatusConditions :=
                   Remove NodeSetIPReservationReadyCondition (StatusConditions instance)\<rparr>,
             Inr [])
          else
            (case reserveNodes (NodeTemplate_Networks instance) (Nodes instance) c False [] of
               (c', Inl e) \<Rightarrow> (c', instance, Inl e)
             | (c', Inr (ipamUsed, allIPSets)) \<Rightarrow>
                 (c',
                  if \<not> ipamUsed then
                    instance\<lparr>StatusConditions :=
                      Remove NodeSetIPReservationReadyCondition (StatusConditions instance)\<rparr>
                  else instance,
                  Inr allIPSets)))"

text \<open>
  The readiness scan of \<open>EnsureIPSets\<close>: \<open>True\<close> when the loop leaves through its
  early return, that is when it meets a member whose Ready condition is not True.
\<close>

fun scanNotReady :: "IPSet list \<Rightarrow> bool" where
  "scanNotReady [] = False"
| "scanNotReady (s # ss) =
     (if \<not> IsTrue (ipset_Conditions s) ReadyCondition then True else scanNotReady ss)"

text \<open>
  \<open>EnsureIPSets\<close>.  Go leaves the iteration order of \<open>range\<close> over a map open; \<open>rng\<close>
  is the order the runtime picks for \<open>allIPSets\<close>.  The result is the updated cluster,
  the updated instance and the triple the function returns.
\<close>

definition EnsureIPSets ::
  "(IPSetMap \<Rightarrow> IPSetMap) \<Rightarrow> cluster \<Rightarrow> NodeSet
     \<Rightarrow> cluster \<times> NodeSet \<times> (IPSetMap \<times> bool \<times> err option)" where
  "EnsureIPSets rng c instance =
     (case reserveIPs c instance of
        (c', inst, Inl e) \<Rightarrow>
          (c',
           inst\<lparr>StatusConditions :=
             MarkFalse NodeSetIPReservationReadyCondition ErrorReason SeverityError
               NodeSetIPReservationReadyErrorMessage (StatusConditions inst)\<rparr>,
           ([], False, Some e))
      | (c', inst, Inr allIPSets) \<Rightarrow>
          if length allIPSets = 0 then (c', inst, ([], True, None))
          else if scanNotReady (map snd (rng allIPSets)) then
            (c',
             inst\<lparr>StatusConditions :=
               MarkFalse NodeSetIPReservationReadyCondition RequestedReason SeverityInfo
                 NodeSetIPReservationReadyWaitingMessage (StatusConditions inst)\<rparr>,
             ([], False, None))
          else
            (c',
             inst\<lparr>StatusConditions :=
               MarkTrue NodeSetIPReservationReadyCondition NodeSetIPReservationReadyMessage
                 (StatusConditions inst)\<rparr>,
             (allIPSets, True, None)))"

section \<open>The DNS service check\<close>

text \<open>
  The receiver of the DNS methods.  \<open>Hostnames\<close> and \<open>AllIPs\<close> are maps of maps,
  keyed by host name and then by the lower-cased network name.
\<close>

record DataplaneDNSData =
  ServerAddresses :: "string list option"
  ClusterAddresses :: "string list option"
  CtlplaneSearchDomain :: string
  Ready :: bool
  Hostnames :: "string \<rightharpoonup> (string \<rightharpoonup> string)"
  AllIPs :: "string \<rightharpoonup> (string \<rightharpoonup> string)"

text \<open>
  \<open>CheckDNSService\<close> lists the DNSMasq resources and writes its findings into the
  receiver; it returns the error of the List call, if any.  The address fields are
  assigned only in the last branch.
\<close>

definition CheckDNSService :: "cluster \<Rightarrow> DataplaneDNSData \<Rightarrow> DataplaneDNSData \<times> err option" where
  "CheckDNSService c dns =
     (case dnsmasqList c of
        Inl e \<Rightarrow> (dns\<lparr>Ready := False\<rparr>, Some e)
      | Inr items \<Rightarrow>
          (case items of
             [] \<Rightarrow> (dns\<lparr>Ready := True\<rparr>, None)
           | d # _ \<Rightarrow>
               if \<not> dnsmasq_IsReady d then (dns\<lparr>Ready := False\<rparr>, None)
               else
                 (dns\<lparr>ClusterAddresses := DNSClusterAddresses d,
                      ServerAddresses := DNSAddresses d,
                      Ready := True\<rparr>,
                  None)))"

section \<open>Building the DNS records\<close>

text \<open>
  Modelled from the spec: the constant \<open>CtlPlaneNetwork\<close> is declared in another file
  of the package; the spec names the control-plane network \<open>ctlplane\<close>.
\<close>

definition CtlPlaneNetwork :: string where
  "CtlPlaneNetwork = ''ctlplane''"

text \<open>
  \<open>strings.ToLower\<close> on the ASCII letters; every other byte is left as it is (network
  names are ASCII).
\<close>

definition ToLower :: "string \<Rightarrow> string" where
  "ToLower s =
     map (\<lambda>c. case map_of (zip ''ABCDEFGHIJKLMNOPQRSTUVWXYZ'' ''abcdefghijklmnopqrstuvwxyz'') c of
                 None \<Rightarrow> c
               | Some l \<Rightarrow> l) s"

text \<open>\<open>strings.Split(hostName, ".")[0]\<close>: the part before the first dot, all of it without one.\<close>

definition shortNameOf :: "string \<Rightarrow> string" where
  "shortNameOf hostName = takeWhile (\<lambda>ch. ch \<noteq> CHR ''.'') hostName"

text \<open>\<open>strings.Join([]string{shortName, dnsDomain}, ".")\<close>.\<close>

definition joinDot :: "string \<Rightarrow> string \<Rightarrow> string" where
  "joinDot shortName dnsDomain = shortName @ ''.'' @ dnsDomain"

text \<open>
  The assignment \<open>m[hostName][net] = v\<close> on a map of maps.  The inner map of a host is
  created at the start of that host's iteration, before any such assignment.
\<close>

definition put2 ::
  "string \<Rightarrow> string \<Rightarrow> string \<Rightarrow> (string \<rightharpoonup> (string \<rightharpoonup> string))
     \<Rightarrow> (string \<rightharpoonup> (string \<rightharpoonup> string))" where
  "put2 hostName net v m =
     m(hostName \<mapsto> (case m hostName of None \<Rightarrow> Map.empty | Some inner \<Rightarrow> inner)(net \<mapsto> v))"

text \<open>
  The variables the loops of \<open>createOrPatchDNSData\<close> update: the slice
  \<open>allDNSRecords\<close>, the local string \<open>ctlplaneSearchDomain\<close> and the receiver.
\<close>

record buildState =
  allDNSRecords :: "DNSHost list"
  ctlplaneSearchDomain :: string
  dnsOut :: DataplaneDNSData

text \<open>
  The body of the inner loop, for one reservation \<open>res\<close> of the host.
  \<open>NodeHostNameIsFQDN\<close> belongs to the API package, which is not among the sources,
  and is a parameter.  The local \<open>ctlplaneSearchDomain\<close> is read in the last test and
  assigned nowhere; the assignment goes to the field of the receiver.
\<close>

definition addReservation ::
  "(string \<Rightarrow> bool) \<Rightarrow> string \<Rightarrow> string \<Rightarrow> IPSetReservation \<Rightarrow> buildState \<Rightarrow> buildState" where
  "addReservation NodeHostNameIsFQDN hostName shortName res st =
     (let netLower = ToLower (Network res);
          fqdnName = joinDot shortName (DNSDomain res);
          (fqdnNames1, d1) =
            (if fqdnName \<noteq> hostName then
               ([] @ [fqdnName],
                (dnsOut st)\<lparr>Hostnames := put2 hostName netLower fqdnName (Hostnames (dnsOut st))\<rparr>)
             else ([], dnsOut st));
          (fqdnNames2, d2) =
            (if NodeHostNameIsFQDN hostName \<and> netLower = CtlPlaneNetwork then
               (fqdnNames1 @ [hostName],
                d1\<lparr>Hostnames := put2 hostName netLower hostName (Hostnames d1)\<rparr>)
             else (fqdnNames1, d1));
          d3 = d2\<lparr>AllIPs := put2 hostName netLower (Address res) (AllIPs d2)\<rparr>;
          dnsRecord = \<lparr>host_IP = Address res, host_Hostnames = fqdnNames2\<rparr>;
          d4 = (if netLower = CtlPlaneNetwork \<and> ctlplaneSearchDomain st = [] then
                  d3\<lparr>CtlplaneSearchDomain := DNSDomain res\<rparr>
                else d3)
      in st\<lparr>allDNSRecords := allDNSRecords st @ [dnsRecord], dnsOut := d4\<rparr>)"

fun addReservations ::
  "(string \<Rightarrow> bool) \<Rightarrow> string \<Rightarrow> string \<Rightarrow> IPSetReservation list \<Rightarrow> buildState
     \<Rightarrow> buildState" where
  "addReservations isFQDN hostName shortName [] st = st"
| "addReservations isFQDN hostName shortName (res # rs) st =
     addReservations isFQDN hostName shortName rs
       (addReservation isFQDN hostName shortName res st)"

text \<open>The body of the outer loop, for one node.\<close>

definition addNode ::
  "(string \<Rightarrow> bool) \<Rightarrow> IPSetNetwork list \<Rightarrow> IPSetMap \<Rightarrow> NodeSection \<Rightarrow> buildState
     \<Rightarrow> buildState" where
  "addNode isFQDN tmpl allIPSets node st =
     (let nets0 = Networks node;
          hostName = HostName node;
          st1 = st\<lparr>dnsOut := (dnsOut st)
                  \<lparr>Hostnames := (Hostnames (dnsOut st))(hostName \<mapsto> Map.empty),
                   AllIPs := (AllIPs (dnsOut st))(hostName \<mapsto> Map.empty)\<rparr>\<rparr>;
          shortName = shortNameOf hostName;
          nets = (if length nets0 = 0 then tmpl else nets0)
      in if length nets > 0 then
           (case map_of allIPSets hostName of
              Some ipSet \<Rightarrow> addReservations isFQDN hostName shortName (Reservation ipSet) st1
            | None \<Rightarrow> st1)
         else st1)"

fun addNodes ::
  "(string \<Rightarrow> bool) \<Rightarrow> IPSetNetwork list \<Rightarrow> IPSetMap \<Rightarrow> NodeSection list \<Rightarrow> buildState
     \<Rightarrow> buildState" where
  "addNodes isFQDN tmpl allIPSets [] st = st"
| "addNodes isFQDN tmpl allIPSets (node # rest) st =
     addNodes isFQDN tmpl allIPSets rest (addNode isFQDN tmpl allIPSets node st)"

text \<open>
  \<open>controllerutil.CreateOrPatch\<close> on the DNSData resource named after the instance,
  with the mutation that sets the hosts and the label selector value.  A resource
  created here has an empty status and is not ready.
\<close>

definition CreateOrPatchDNSData ::
  "cluster \<Rightarrow> string \<Rightarrow> DNSHost list \<Rightarrow> cluster \<times> err option" where
  "CreateOrPatchDNSData c name hosts =
     (let rq = UpsertDNSData name hosts;
          c1 = c\<lparr>requests := requests c @ [rq]\<rparr>
      in case upsertErr c (requests c) rq of
           Some e \<Rightarrow> (c1, Some e)
         | None \<Rightarrow>
             (let dnsData =
                    (case dnsDatas c name of
                       None \<Rightarrow> \<lparr>Hosts = [], DNSDataLabelSelectorValue = [], dnsdata_IsReady = False\<rparr>
                     | Some d \<Rightarrow> d)
                    \<lparr>Hosts := hosts, DNSDataLabelSelectorValue := ''dnsdata''\<rparr>
              in (c1\<lparr>dnsDatas := (dnsDatas c)(name \<mapsto> dnsData)\<rparr>, None)))"

definition createOrPatchDNSData ::
  "(string \<Rightarrow> bool) \<Rightarrow> cluster \<Rightarrow> NodeSet \<Rightarrow> DataplaneDNSData \<Rightarrow> IPSetMap
     \<Rightarrow> cluster \<times> DataplaneDNSData \<times> err option" where
  "createOrPatchDNSData isFQDN c instance dns allIPSets =
     (let st0 = \<lparr>allDNSRecords = [], ctlplaneSearchDomain = [],
                 dnsOut = dns\<lparr>Hostnames := Map.empty, AllIPs := Map.empty\<rparr>\<rparr>;
          st = addNodes isFQDN (NodeTemplate_Networks instance) allIPSets (Nodes instance) st0
      in case CreateOrPatchDNSData c (Name instance) (allDNSRecords st) of
           (c', r) \<Rightarrow> (c', dnsOut st, r))"

section \<open>EnsureDNSData\<close>

definition GetDNSData :: "cluster \<Rightarrow> string \<Rightarrow> err + DNSData" where
  "GetDNSData c name =
     (case getDNSDataErr c of
        Some e \<Rightarrow> Inl e
      | None \<Rightarrow> (case dnsDatas c name of None \<Rightarrow> Inl NotFound | Some d \<Rightarrow> Inr d))"

definition markDNS :: "(Conditions \<Rightarrow> Conditions) \<Rightarrow> NodeSet \<Rightarrow> NodeSet" where
  "markDNS f instance = instance\<lparr>StatusConditions := f (StatusConditions instance)\<rparr>"

definition dnsError :: "Conditions \<Rightarrow> Conditions" where
  "dnsError = MarkFalse NodeSetDNSDataReadyCondition ErrorReason SeverityError
                NodeSetDNSDataReadyErrorMessage"

definition dnsWaiting :: "Conditions \<Rightarrow> Conditions" where
  "dnsWaiting = MarkFalse NodeSetDNSDataReadyCondition RequestedReason SeverityInfo
                  NodeSetDNSDataReadyWaitingMessage"

definition dnsReady :: "Conditions \<Rightarrow> Conditions" where
  "dnsReady = MarkTrue NodeSetDNSDataReadyCondition NodeSetDNSDataReadyMessage"

text \<open>
  \<open>EnsureDNSData\<close>.  In the first block the three tests are made one after the other,
  none of them an \<open>else\<close> of another.  The result is the updated cluster, instance and
  receiver, and the returned error.
\<close>

definition EnsureDNSData ::
  "(string \<Rightarrow> bool) \<Rightarrow> cluster \<Rightarrow> NodeSet \<Rightarrow> DataplaneDNSData \<Rightarrow> IPSetMap
     \<Rightarrow> cluster \<times> NodeSet \<times> DataplaneDNSData \<times> err option" where
  "EnsureDNSData isFQDN c instance dns allIPSets =
     (case CheckDNSService c dns of
        (dns1, err) \<Rightarrow>
          if err \<noteq> None \<or> \<not> Ready dns1 \<or> ClusterAddresses dns1 = None then
            (let i1 = (if err \<noteq> None then markDNS dnsError instance else instance);
                 i2 = (if \<not> Ready dns1 then markDNS dnsWaiting i1 else i1);
                 i3 = (if ClusterAddresses dns1 = None then
                         markDNS (Remove NodeSetDNSDataReadyCondition) i2
                       else i2)
             in (c, i3, dns1, err))
          else
            (case createOrPatchDNSData isFQDN c instance dns1 allIPSets of
               (c2, dns2, Some e) \<Rightarrow> (c2, markDNS dnsError instance, dns2, Some e)
             | (c2, dns2, None) \<Rightarrow>
                 (case GetDNSData c2 (Name instance) of
                    Inl e \<Rightarrow> (c2, markDNS dnsError instance, dns2, Some e)
                  | Inr dnsData \<Rightarrow>
                      if \<not> dnsdata_IsReady dnsData then
                        (c2, markDNS dnsWaiting instance, dns2\<lparr>Ready := False\<rparr>, None)
                      else (c2, markDNS dnsReady instance, dns2\<lparr>Ready := True\<rparr>, None))))"

section \<open>The earlier variant of the file\<close>

text \<open>
  The second copy of the file among the sources is an earlier state of the same
  functions.  There the nodes are the entries of the map
  \<open>instance.Spec.NodeTemplate.Nodes\<close>, and the key of an entry plays the part of the
  host name: in this model \<open>HostName\<close> of a node is that key.  Three places differ
  from the file above and are modelled here: \<open>reserveIPs\<close> has no \<open>ipamUsed\<close> flag, the
  scan of \<open>EnsureIPSets\<close> tests \<open>IsFalse\<close>, and \<open>createOrPatchDNSData\<close> keeps the search
  domain in its local variable and returns it.
\<close>

fun reserveNodes_part000 ::
  "IPSetNetwork list \<Rightarrow> NodeSection list \<Rightarrow> cluster \<Rightarrow> IPSetMap \<Rightarrow> cluster \<times> (err + IPSetMap)" where
  "reserveNodes_part000 tmpl [] c allIPSets = (c, Inr allIPSets)"
| "reserveNodes_part000 tmpl (node # rest) c allIPSets =
     (let nets0 = Networks node;
          nodeName = HostName node;
          nets = (if length nets0 = 0 then tmpl else nets0)
      in if length nets > 0 then
           (case CreateOrPatchIPSet c nodeName nets of
              (c', Inl e) \<Rightarrow> (c', Inl e)
            | (c', Inr ipSet) \<Rightarrow>
                reserveNodes_part000 tmpl rest c' (AList.update nodeName ipSet allIPSets))
         else reserveNodes_part000 tmpl rest c allIPSets)"

definition reserveIPs_part000 :: "cluster \<Rightarrow> NodeSet \<Rightarrow> cluster \<times> NodeSet \<times> (err + IPSetMap)" where
  "reserveIPs_part000 c instance =
     (case netConfigList c of
        Inl e \<Rightarrow> (c, instance, Inl e)
      | Inr n \<Rightarrow>
          if n = 0 then
            (c, instance\<lparr>StatusConditions :=
                   Remove NodeSetIPReservationReadyCondition (StatusConditions instance)\<rparr>,
             Inr [])
          else
            (case reserveNodes_part000 (NodeTemplate_Networks instance) (Nodes instance) c [] of
               (c', Inl e) \<Rightarrow> (c', instance, Inl e)
             | (c', Inr allIPSets) \<Rightarrow> (c', instance, Inr allIPSets)))"

fun scanFalse_part000 :: "IPSet list \<Rightarrow> bool" where
  "scanFalse_part000 [] = False"
| "scanFalse_part000 (s # ss) =
     (if IsFalse (ipset_Conditions s) ReadyCondition then True else scanFalse_part000 ss)"

definition EnsureIPSets_part000 ::
  "(IPSetMap \<Rightarrow> IPSetMap) \<Rightarrow> cluster \<Rightarrow> NodeSet
     \<Rightarrow> cluster \<times> NodeSet \<times> (IPSetMap \<times> bool \<times> err option)" where
  "EnsureIPSets_part000 rng c instance =
     (case reserveIPs_part000 c instance of
        (c', inst, Inl e) \<Rightarrow>
          (c',
           inst\<lparr>StatusConditions :=
             MarkFalse NodeSetIPReservationReadyCondition ErrorReason SeverityError
               NodeSetIPReservationReadyErrorMessage (StatusConditions inst)\<rparr>,
           ([], False, Some e))
      | (c', inst, Inr allIPSets) \<Rightarrow>
          if length allIPSets = 0 then (c', inst, ([], True, None))
          else if scanFalse_part000 (map snd (rng allIPSets)) then
            (c',
             inst\<lparr>StatusConditions :=
               MarkFalse NodeSetIPReservationReadyCondition RequestedReason SeverityInfo
                 NodeSetIPReservationReadyWaitingMessage (StatusConditions inst)\<rparr>,
             ([], False, None))
          else
            (c',
             inst\<lparr>StatusConditions :=
               MarkTrue NodeSetIPReservationReadyCondition NodeSetIPReservationReadyMessage
                 (StatusConditions inst)\<rparr>,
             (allIPSets, True, None)))"

text \<open>
  The loops of the earlier \<open>createOrPatchDNSData\<close>; the state is the pair of
  \<open>allDNSRecords\<close> and the local \<open>ctlplaneSearchDomain\<close>, which is assigned here.
\<close>

definition addReservation_part000 ::
  "string \<Rightarrow> IPSetReservation \<Rightarrow> DNSHost list \<times> string \<Rightarrow> DNSHost list \<times> string" where
  "addReservation_part000 nodeName res st =
     (case st of
        (records, searchDomain) \<Rightarrow>
          (let fqdnName = joinDot nodeName (DNSDomain res);
               dnsRecord = \<lparr>host_IP = Address res, host_Hostnames = [] @ [fqdnName]\<rparr>
           in (records @ [dnsRecord],
               if Network res = CtlPlaneNetwork \<and> searchDomain = [] then DNSDomain res
               else searchDomain)))"

fun addReservations_part000 ::
  "string \<Rightarrow> IPSetReservation list \<Rightarrow> DNSHost list \<times> string \<Rightarrow> DNSHost list \<times> string" where
  "addReservations_part000 nodeName [] st = st"
| "addReservations_part000 nodeName (res # rs) st =
     addReservations_part000 nodeName rs (addReservation_part000 nodeName res st)"

fun addNodes_part000 ::
  "IPSetNetwork list \<Rightarrow> IPSetMap \<Rightarrow> NodeSection list \<Rightarrow> DNSHost list \<times> string
     \<Rightarrow> DNSHost list \<times> string" where
  "addNodes_part000 tmpl allIPSets [] st = st"
| "addNodes_part000 tmpl allIPSets (node # rest) st =
     (let nets0 = Networks node;
          nodeName = HostName node;
          nets = (if length nets0 = 0 then tmpl else nets0)
      in addNodes_part000 tmpl allIPSets rest
           (if length nets > 0 then
              (case map_of allIPSets nodeName of
                 Some ipSet \<Rightarrow> addReservations_part000 nodeName (Reservation ipSet) st
               | None \<Rightarrow> st)
            else st))"

definition createOrPatchDNSData_part000 ::
  "cluster \<Rightarrow> NodeSet \<Rightarrow> IPSetMap \<Rightarrow> cluster \<times> string \<times> err option" where
  "createOrPatchDNSData_part000 c instance allIPSets =
     (case addNodes_part000 (NodeTemplate_Networks instance) allIPSets (Nodes instance) ([], []) of
        (records, searchDomain) \<Rightarrow>
          (case CreateOrPatchDNSData c (Name instance) records of
             (c', Some e) \<Rightarrow> (c', [], Some e)
           | (c', None) \<Rightarrow> (c', searchDomain, None)))"

section \<open>The record list in closed form\<close>

text \<open>
  What the builder is said to emit for one reservation of a host: the name
  \<open>shortName.dnsDomain\<close> when it differs from the host name, then the host name itself
  when that is fully qualified and the network is the control-plane network.
\<close>

definition aliasesOf :: "(string \<Rightarrow> bool) \<Rightarrow> string \<Rightarrow> IPSetReservation \<Rightarrow> string list" where
  "aliasesOf isFQDN hostName res =
     (let fqdn = joinDot (shortNameOf hostName) (DNSDomain res)
      in (if fqdn \<noteq> hostName then [fqdn] else []) @
         (if isFQDN hostName \<and> ToLower (Network res) = CtlPlaneNetwork then [hostName] else []))"

definition recordOf :: "(string \<Rightarrow> bool) \<Rightarrow> string \<Rightarrow> IPSetReservation \<Rightarrow> DNSHost" where
  "recordOf isFQDN hostName res =
     \<lparr>host_IP = Address res, host_Hostnames = aliasesOf isFQDN hostName res\<rparr>"

text \<open>A node takes part when its own attachment list, or else the template's, is not empty.\<close>

definition participates :: "IPSetNetwork list \<Rightarrow> NodeSection \<Rightarrow> bool" where
  "participates tmpl node = ((if Networks node = [] then tmpl else Networks node) \<noteq> [])"

definition nodeRecords ::
  "(string \<Rightarrow> bool) \<Rightarrow> IPSetNetwork list \<Rightarrow> IPSetMap \<Rightarrow> NodeSection \<Rightarrow> DNSHost list" where
  "nodeRecords isFQDN tmpl allIPSets node =
     (if participates tmpl node then
        (case map_of allIPSets (HostName node) of
           None \<Rightarrow> []
         | Some ipSet \<Rightarrow> map (recordOf isFQDN (HostName node)) (Reservation ipSet))
      else [])"

definition allRecords ::
  "(string \<Rightarrow> bool) \<Rightarrow> IPSetNetwork list \<Rightarrow> IPSetMap \<Rightarrow> NodeSection list \<Rightarrow> DNSHost list" where
  "allRecords isFQDN tmpl allIPSets nodes = concat (map (nodeRecords isFQDN tmpl allIPSets) nodes)"

text \<open>The attachments requested for a node, and the request \<open>reserveIPs\<close> sends for it.\<close>

definition netsOf :: "IPSetNetwork list \<Rightarrow> NodeSection \<Rightarrow> IPSetNetwork list" where
  "netsOf tmpl node = (if Networks node = [] then tmpl else Networks node)"

definition upsertOf :: "IPSetNetwork list \<Rightarrow> NodeSection \<Rightarrow> request" where
  "upsertOf tmpl node = UpsertIPSet (HostName node) (netsOf tmpl node)"

section \<open>Sample inputs\<close>

definition ctlplaneNet :: IPSetNetwork where
  "ctlplaneNet = \<lparr>net_Name = ''ctlplane'', net_FixedIP = None\<rparr>"

definition readyTrue :: Condition where
  "readyTrue = \<lparr>Status = ConditionTrue, Reason = ReadyReason, Severity = SeverityNone,
                Message = OtherMessage ''Setup complete''\<rparr>"

definition sampleReservation :: "string \<Rightarrow> string \<Rightarrow> string \<Rightarrow> IPSetReservation" where
  "sampleReservation net addr domain = \<lparr>Network = net, Address = addr, DNSDomain = domain\<rparr>"

definition sampleIPSet :: "Conditions \<Rightarrow> IPSetReservation list \<Rightarrow> IPSet" where
  "sampleIPSet conds rs = \<lparr>ipset_Networks = [ctlplaneNet], Reservation = rs, ipset_Conditions = conds\<rparr>"

definition sampleNode :: "string \<Rightarrow> NodeSection" where
  "sampleNode h = \<lparr>HostName = h, Networks = [ctlplaneNet]\<rparr>"

definition bareNode :: "string \<Rightarrow> NodeSection" where
  "bareNode h = \<lparr>HostName = h, Networks = []\<rparr>"

definition sampleNodeSet :: "NodeSection list \<Rightarrow> NodeSet" where
  "sampleNodeSet ns =
     \<lparr>Name = ''edpm'', Nodes = ns, NodeTemplate_Networks = [], StatusConditions = Map.empty\<rparr>"

text \<open>A cluster in which no call fails, with the given lists and IPSet store.\<close>

definition sampleCluster :: "nat \<Rightarrow> DNSMasq list \<Rightarrow> (string \<rightharpoonup> IPSet) \<Rightarrow> cluster" where
  "sampleCluster n dnsmasqs store =
     \<lparr>netConfigList = Inr n, dnsmasqList = Inr dnsmasqs, ipSets = store,
      dnsDatas = Map.empty, upsertErr = (\<lambda>_ _. None), getDNSDataErr = None, requests = []\<rparr>"

definition freshDNS :: DataplaneDNSData where
  "freshDNS = \<lparr>ServerAddresses = None, ClusterAddresses = None, CtlplaneSearchDomain = [],
               Ready = False, Hostnames = Map.empty, AllIPs = Map.empty\<rparr>"

definition readyDNSMasq :: DNSMasq where
  "readyDNSMasq = \<lparr>dnsmasq_IsReady = True, DNSClusterAddresses = Some [''10.217.4.10''],
                   DNSAddresses = Some [''192.168.122.80'']\<rparr>"

definition pendingDNSMasq :: DNSMasq where
  "pendingDNSMasq = \<lparr>dnsmasq_IsReady = False, DNSClusterAddresses = None, DNSAddresses = None\<rparr>"

text \<open>A stand-in for \<open>NodeHostNameIsFQDN\<close> in the samples: the name contains a dot.\<close>

definition dotted :: "string \<Rightarrow> bool" where
  "dotted h = (CHR ''.'' \<in> set h)"

definition edpm0Reservation :: IPSetReservation where
  "edpm0Reservation = sampleReservation ''ctlplane'' ''172.20.0.10'' ''ctlplane.example.com''"

definition storageReservation :: IPSetReservation where
  "storageReservation = sampleReservation ''storage'' ''172.18.0.10'' ''storage.example.com''"

definition readyPair :: IPSetMap where
  "readyPair =
     [(''edpm-0'', sampleIPSet [ReadyCondition \<mapsto> readyTrue] []),
      (''edpm-1'', sampleIPSet [ReadyCondition \<mapsto> readyTrue] [])]"

definition twoNodes :: NodeSet where
  "twoNodes = sampleNodeSet [sampleNode ''edpm-0'', sampleNode ''edpm-1'']"

definition conflictCluster :: cluster where
  "conflictCluster =
     (sampleCluster 1 [] Map.empty)
       \<lparr>upsertErr := (\<lambda>_ rq. if rq = UpsertIPSet ''edpm-1'' [ctlplaneNet]
                              then Some (ApiError ''conflict'') else None)\<rparr>"

definition threeNodes :: NodeSet where
  "threeNodes = sampleNodeSet [sampleNode ''edpm-0'', sampleNode ''edpm-1'', sampleNode ''edpm-2'']"

definition listErrorCluster :: cluster where
  "listErrorCluster = (sampleCluster 1 [] Map.empty)\<lparr>netConfigList := Inl (ApiError ''timeout'')\<rparr>"

definition staleDNS :: DataplaneDNSData where
  "staleDNS = freshDNS\<lparr>ClusterAddresses := Some [''10.217.4.10'']\<rparr>"

definition otherReservation :: IPSetReservation where
  "otherReservation = sampleReservation ''ctlplane'' ''172.20.1.10'' ''other.example.org''"

definition twoDomains :: IPSetMap where
  "twoDomains =
     [(''edpm-0'', sampleIPSet [ReadyCondition \<mapsto> readyTrue] [edpm0Reservation]),
      (''edpm-1'', sampleIPSet [ReadyCondition \<mapsto> readyTrue] [otherReservation])]"

definition readyDataCluster :: cluster where
  "readyDataCluster =
     (sampleCluster 1 [readyDNSMasq] Map.empty)
       \<lparr>dnsDatas := [''edpm'' \<mapsto>
          \<lparr>Hosts = [], DNSDataLabelSelectorValue = ''dnsdata'', dnsdata_IsReady = True\<rparr>]\<rparr>"

definition waitingNodes :: NodeSet where
  "waitingNodes = twoNodes\<lparr>StatusConditions := dnsWaiting Map.empty\<rparr>"

definition storageHost :: string where
  "storageHost = ''edpm-0.storage.example.com''"

section \<open>Unfolding rules\<close>

lemmas sample_defs =
  sampleCluster_def sampleNodeSet_def sampleNode_def bareNode_def sampleIPSet_def
  sampleReservation_def ctlplaneNet_def readyTrue_def freshDNS_def readyDNSMasq_def
  pendingDNSMasq_def edpm0Reservation_def storageReservation_def readyPair_def twoNodes_def
  dotted_def conflictCluster_def threeNodes_def listErrorCluster_def staleDNS_def
  otherReservation_def twoDomains_def

lemmas ipam_defs =
  reserveIPs_def EnsureIPSets_def CreateOrPatchIPSet_def newIPSet_def
  CheckDNSService_def EnsureDNSData_def createOrPatchDNSData_def CreateOrPatchDNSData_def
  GetDNSData_def addNode_def addReservation_def markDNS_def dnsError_def dnsWaiting_def
  dnsReady_def MarkTrue_def MarkFalse_def Remove_def IsTrue_def IsFalse_def condState_def
  ToLower_def CtlPlaneNetwork_def shortNameOf_def joinDot_def put2_def Let_def

section \<open>Aggregate readiness of the reservations\<close>

lemma scanNotReady_iff:
  "scanNotReady xs \<longleftrightarrow> (\<exists>s \<in> set xs. \<not> IsTrue (ipset_Conditions s) ReadyCondition)"
  by (induction xs) auto

lemma range_order_set:
  assumes "mset ys = mset xs"
  shows "set (map snd ys) = snd ` set xs"
proof -
  have "set ys = set xs"
    using assms by (rule mset_eq_setD)
  then show ?thesis
    by simp
qed

text \<open>
  C1.  When \<open>reserveIPs\<close> has returned a non-empty map, \<open>EnsureIPSets\<close> reports Ready
  (condition marked True, the whole map returned) if every member's Ready condition is
  True, and Waiting (condition marked False with the waiting message, no map) if some
  member's is not; and any two iteration orders of the map give the same outcome.
\<close>

theorem EnsureIPSets_ready_iff_all_true:
  assumes reserved: "reserveIPs c instance = (c', inst, Inr allIPSets)"
    and nonempty: "allIPSets \<noteq> []"
    and perm: "mset (rng allIPSets) = mset allIPSets"
    and perm': "mset (rng' allIPSets) = mset allIPSets"
  shows "EnsureIPSets rng c instance =
           (if \<forall>s \<in> snd ` set allIPSets. IsTrue (ipset_Conditions s) ReadyCondition
            then (c',
                  inst\<lparr>StatusConditions :=
                    MarkTrue NodeSetIPReservationReadyCondition NodeSetIPReservationReadyMessage
                      (StatusConditions inst)\<rparr>,
                  (allIPSets, True, None))
            else (c',
                  inst\<lparr>StatusConditions :=
                    MarkFalse NodeSetIPReservationReadyCondition RequestedReason SeverityInfo
                      NodeSetIPReservationReadyWaitingMessage (StatusConditions inst)\<rparr>,
                  ([], False, None)))
         \<and> EnsureIPSets rng' c instance = EnsureIPSets rng c instance"
proof -
  have scan: "scanNotReady (map snd ys) \<longleftrightarrow>
                \<not> (\<forall>s \<in> snd ` set allIPSets. IsTrue (ipset_Conditions s) ReadyCondition)"
    if "mset ys = mset allIPSets" for ys
    using range_order_set [OF that] by (simp add: scanNotReady_iff)
  show ?thesis
    using reserved nonempty scan [OF perm] scan [OF perm']
    by (simp add: EnsureIPSets_def)
qed


theorem EnsureIPSets_ready_iff_all_true_witness:
  "readyPair \<noteq> []
   \<and> mset (rev readyPair) = mset readyPair
   \<and> list_all (\<lambda>s. IsTrue (ipset_Conditions s) ReadyCondition) (map snd readyPair)
   \<and> snd (snd (reserveIPs (sampleCluster 1 [] (map_of readyPair)) twoNodes)) = Inr readyPair
   \<and> snd (snd (EnsureIPSets rev (sampleCluster 1 [] (map_of readyPair)) twoNodes)) =
       (readyPair, True, None)
   \<and> condState (StatusConditions (fst (snd
         (EnsureIPSets rev (sampleCluster 1 [] (map_of readyPair)) twoNodes))))
        NodeSetIPReservationReadyCondition = Some CondReady
   \<and> EnsureIPSets id (sampleCluster 1 [] (map_of readyPair)) twoNodes =
       EnsureIPSets rev (sampleCluster 1 [] (map_of readyPair)) twoNodes"
proof -
  let ?c = "sampleCluster 1 [] (map_of readyPair)"
  have res: "snd (snd (reserveIPs ?c twoNodes)) = Inr readyPair"
    by (simp add: reserveIPs_def sampleCluster_def twoNodes_def sampleNodeSet_def sampleNode_def
        readyPair_def CreateOrPatchIPSet_def Let_def sampleIPSet_def ctlplaneNet_def)
  then have reserved:
    "reserveIPs ?c twoNodes =
       (fst (reserveIPs ?c twoNodes), fst (snd (reserveIPs ?c twoNodes)), Inr readyPair)"
    by (simp add: prod_eq_iff)
  have ne: "readyPair \<noteq> []"
    by (simp add: readyPair_def)
  have p1: "mset (rev readyPair) = mset readyPair"
    by simp
  have p2: "mset (id readyPair) = mset readyPair"
    by simp
  have allTrue: "\<forall>s \<in> snd ` set readyPair. IsTrue (ipset_Conditions s) ReadyCondition"
    by (simp add: readyPair_def sampleIPSet_def IsTrue_def readyTrue_def)
  show ?thesis
    using EnsureIPSets_ready_iff_all_true [where rng = rev and rng' = id, OF reserved ne p1 p2]
      res ne allTrue
    by (simp add: condState_def MarkTrue_def list_all_iff)
qed

text \<open>
  The earlier variant of \<open>EnsureIPSets\<close> differs here: its scan tests \<open>IsFalse\<close>, so
  IPSets that were just created and carry no Ready condition yet count as ready, while
  the scan above waits for them.
\<close>

lemma EnsureIPSets_part000_unset:
  "snd (snd (EnsureIPSets_part000 id (sampleCluster 1 [] Map.empty) twoNodes)) =
     ([(''edpm-0'', newIPSet\<lparr>ipset_Networks := [ctlplaneNet]\<rparr>),
       (''edpm-1'', newIPSet\<lparr>ipset_Networks := [ctlplaneNet]\<rparr>)], True, None)
   \<and> snd (snd (EnsureIPSets id (sampleCluster 1 [] Map.empty) twoNodes)) = ([], False, None)"
  by (simp add: EnsureIPSets_part000_def reserveIPs_part000_def sample_defs ipam_defs)


section \<open>The DNS records that are built\<close>

lemma addReservation_records:
  "allDNSRecords (addReservation isFQDN h (shortNameOf h) res st) =
     allDNSRecords st @ [recordOf isFQDN h res]"
  by (simp add: addReservation_def recordOf_def aliasesOf_def Let_def)

lemma addReservations_records:
  "allDNSRecords (addReservations isFQDN h (shortNameOf h) rs st) =
     allDNSRecords st @ map (recordOf isFQDN h) rs"
  by (induction rs arbitrary: st) (simp_all add: addReservation_records)

lemma addNode_records:
  "allDNSRecords (addNode isFQDN tmpl allIPSets node st) =
     allDNSRecords st @ nodeRecords isFQDN tmpl allIPSets node"
  by (simp add: addNode_def nodeRecords_def participates_def Let_def addReservations_records
      split: option.splits)

lemma addNodes_records:
  "allDNSRecords (addNodes isFQDN tmpl allIPSets nodes st) =
     allDNSRecords st @ allRecords isFQDN tmpl allIPSets nodes"
  by (induction nodes arbitrary: st) (simp_all add: addNode_records allRecords_def)

lemma createOrPatchDNSData_request:
  "requests (fst (createOrPatchDNSData isFQDN c instance dns allIPSets)) =
     requests c @ [UpsertDNSData (Name instance)
                     (allRecords isFQDN (NodeTemplate_Networks instance) allIPSets (Nodes instance))]"
  by (simp add: createOrPatchDNSData_def CreateOrPatchDNSData_def Let_def addNodes_records
      split: option.splits)

lemma createOrPatchDNSData_stored:
  assumes "snd (snd (createOrPatchDNSData isFQDN c instance dns allIPSets)) = None"
  shows "\<exists>d. dnsDatas (fst (createOrPatchDNSData isFQDN c instance dns allIPSets)) (Name instance) = Some d
           \<and> Hosts d = allRecords isFQDN (NodeTemplate_Networks instance) allIPSets (Nodes instance)"
  using assms
  by (simp add: createOrPatchDNSData_def CreateOrPatchDNSData_def Let_def addNodes_records
      split: option.splits)

lemma record_in_allRecords:
  assumes "node \<in> set nodes" and "participates tmpl node"
    and "map_of allIPSets (HostName node) = Some ipSet"
    and "res \<in> set (Reservation ipSet)"
  shows "recordOf isFQDN (HostName node) res \<in> set (allRecords isFQDN tmpl allIPSets nodes)"
proof -
  have "recordOf isFQDN (HostName node) res \<in> set (nodeRecords isFQDN tmpl allIPSets node)"
    using assms(2-4) by (simp add: nodeRecords_def)
  with assms(1) show ?thesis
    unfolding allRecords_def by auto
qed





text \<open>
  The map \<open>Hostnames\<close> of the receiver keeps one name for a host and network, the one
  assigned last.  For a fully qualified host name on the control-plane network the
  record carries both names, and the map keeps the host name.
\<close>

lemma createOrPatchDNSData_fqdn_host:
  "requests (fst (createOrPatchDNSData dotted (sampleCluster 1 [readyDNSMasq] Map.empty)
      (sampleNodeSet [sampleNode ''edpm-0.example.com'']) freshDNS
      [(''edpm-0.example.com'', sampleIPSet Map.empty [edpm0Reservation])])) =
     [UpsertDNSData ''edpm''
        [\<lparr>host_IP = ''172.20.0.10'',
          host_Hostnames = [''edpm-0.ctlplane.example.com'', ''edpm-0.example.com'']\<rparr>]]
   \<and> map_option (\<lambda>inner. inner ''ctlplane'')
        (Hostnames (fst (snd (createOrPatchDNSData dotted
           (sampleCluster 1 [readyDNSMasq] Map.empty)
           (sampleNodeSet [sampleNode ''edpm-0.example.com'']) freshDNS
           [(''edpm-0.example.com'', sampleIPSet Map.empty [edpm0Reservation])])))
         ''edpm-0.example.com'') =
       Some (Some ''edpm-0.example.com'')"
  by (simp add: sample_defs ipam_defs)

section \<open>Reserving the addresses\<close>

lemma reserveNodes_append:
  "reserveNodes tmpl pre c u m = (c1, Inr (u1, m1)) \<Longrightarrow>
     reserveNodes tmpl (pre @ rest) c u m = reserveNodes tmpl rest c1 u1 m1"
proof (induction pre arbitrary: c u m)
  case Nil
  then show ?case by simp
next
  case (Cons node pre)
  then show ?case
    by (auto simp: Let_def split: if_splits prod.splits sum.splits)
qed

lemma reserveNodes_requests:
  "reserveNodes tmpl nodes c u m = (c1, Inr (u1, m1)) \<Longrightarrow>
     requests c1 = requests c @ map (upsertOf tmpl) (filter (participates tmpl) nodes)"
proof (induction nodes arbitrary: c u m)
  case Nil
  then show ?case by simp
next
  case (Cons node nodes)
  show ?case
  proof (cases "participates tmpl node")
    case False
    with Cons show ?thesis
      by (simp add: participates_def Let_def split: if_splits)
  next
    case True
    with Cons.prems obtain c' ipSet where
      step: "CreateOrPatchIPSet c (HostName node) (netsOf tmpl node) = (c', Inr ipSet)"
      and rest: "reserveNodes tmpl nodes c' True (AList.update (HostName node) ipSet m) = (c1, Inr (u1, m1))"
      by (auto simp: participates_def netsOf_def Let_def split: if_splits prod.splits sum.splits)
    from step have "requests c' = requests c @ [upsertOf tmpl node]"
      by (auto simp: CreateOrPatchIPSet_def upsertOf_def Let_def split: option.splits)
    with Cons.IH [OF rest] True show ?thesis
      by simp
  qed
qed

lemma reserveNodes_fail_head:
  assumes "participates tmpl node"
    and "upsertErr c (requests c) (upsertOf tmpl node) = Some e"
  shows "reserveNodes tmpl (node # post) c u m =
           (c\<lparr>requests := requests c @ [upsertOf tmpl node]\<rparr>, Inl e)"
  using assms
  by (simp add: participates_def upsertOf_def netsOf_def CreateOrPatchIPSet_def Let_def)

lemma reserveNodes_none:
  "\<forall>node \<in> set nodes. Networks node = [] \<Longrightarrow> reserveNodes [] nodes c u m = (c, Inr (u, m))"
  by (induction nodes) simp_all

text \<open>
  C8.  Let the NetConfig list be non-empty, let the nodes before \<open>node\<close> have been
  handled without error, leaving the cluster \<open>c1\<close>, and let the upsert of the IPSet
  of \<open>node\<close>, which takes part, fail with \<open>e\<close>.  Then \<open>EnsureIPSets\<close> returns
  \<open>e\<close> itself with no map and \<open>false\<close>, the reservation condition is marked False
  with the error reason, and the cluster is \<open>c1\<close> with the failed request appended:
  the store is as the earlier upserts left it, and the requests are those of the
  participating earlier nodes and of \<open>node\<close>, none for a later node.
\<close>

theorem reserveIPs_fail_fast:
  assumes listed: "netConfigList c = Inr n" "0 < n"
    and nodes: "Nodes instance = pre @ node # post"
    and prefix: "reserveNodes (NodeTemplate_Networks instance) pre c False [] = (c1, Inr (u1, m1))"
    and part: "participates (NodeTemplate_Networks instance) node"
    and fails: "upsertErr c1 (requests c1) (upsertOf (NodeTemplate_Networks instance) node) = Some e"
  shows "EnsureIPSets rng c instance =
           (c1\<lparr>requests := requests c1 @ [upsertOf (NodeTemplate_Networks instance) node]\<rparr>,
            instance\<lparr>StatusConditions :=
              MarkFalse NodeSetIPReservationReadyCondition ErrorReason SeverityError
                NodeSetIPReservationReadyErrorMessage (StatusConditions instance)\<rparr>,
            ([], False, Some e))
         \<and> requests c1 @ [upsertOf (NodeTemplate_Networks instance) node] =
             requests c @
               map (upsertOf (NodeTemplate_Networks instance))
                 (filter (participates (NodeTemplate_Networks instance)) pre) @
               [upsertOf (NodeTemplate_Networks instance) node]"
proof -
  let ?tmpl = "NodeTemplate_Networks instance"
  have "reserveNodes ?tmpl (Nodes instance) c False [] =
          reserveNodes ?tmpl (node # post) c1 u1 m1"
    unfolding nodes by (rule reserveNodes_append [OF prefix])
  also have "\<dots> = (c1\<lparr>requests := requests c1 @ [upsertOf ?tmpl node]\<rparr>, Inl e)"
    by (rule reserveNodes_fail_head [OF part fails])
  finally have "reserveIPs c instance =
      (c1\<lparr>requests := requests c1 @ [upsertOf ?tmpl node]\<rparr>, instance, Inl e)"
    using listed by (simp add: reserveIPs_def)
  then have first: "EnsureIPSets rng c instance =
           (c1\<lparr>requests := requests c1 @ [upsertOf ?tmpl node]\<rparr>,
            instance\<lparr>StatusConditions :=
              MarkFalse NodeSetIPReservationReadyCondition ErrorReason SeverityError
                NodeSetIPReservationReadyErrorMessage (StatusConditions instance)\<rparr>,
            ([], False, Some e))"
    by (simp add: EnsureIPSets_def)
  from reserveNodes_requests [OF prefix] first show ?thesis
    by simp
qed

theorem reserveIPs_fail_fast_witness:
  "netConfigList conflictCluster = Inr 1
   \<and> Nodes threeNodes = [sampleNode ''edpm-0''] @ sampleNode ''edpm-1'' # [sampleNode ''edpm-2'']
   \<and> participates (NodeTemplate_Networks threeNodes) (sampleNode ''edpm-1'')
   \<and> snd (snd (EnsureIPSets id conflictCluster threeNodes)) =
        ([], False, Some (ApiError ''conflict''))
   \<and> requests (fst (EnsureIPSets id conflictCluster threeNodes)) =
        [UpsertIPSet ''edpm-0'' [ctlplaneNet], UpsertIPSet ''edpm-1'' [ctlplaneNet]]
   \<and> ipSets (fst (EnsureIPSets id conflictCluster threeNodes)) ''edpm-0'' =
        Some (newIPSet\<lparr>ipset_Networks := [ctlplaneNet]\<rparr>)
   \<and> ipSets (fst (EnsureIPSets id conflictCluster threeNodes)) ''edpm-2'' = None
   \<and> condState (StatusConditions (fst (snd (EnsureIPSets id conflictCluster threeNodes))))
        NodeSetIPReservationReadyCondition = Some CondError"
proof -
  let ?tmpl = "NodeTemplate_Networks threeNodes"
  have listed: "netConfigList conflictCluster = Inr 1" "(0::nat) < 1"
    by (simp_all add: conflictCluster_def sampleCluster_def)
  have nodes: "Nodes threeNodes =
      [sampleNode ''edpm-0''] @ sampleNode ''edpm-1'' # [sampleNode ''edpm-2'']"
    by (simp add: threeNodes_def sampleNodeSet_def)
  have part: "participates ?tmpl (sampleNode ''edpm-1'')"
    by (simp add: participates_def sampleNode_def)
  obtain c1 where
    prefix: "reserveNodes ?tmpl [sampleNode ''edpm-0''] conflictCluster False [] =
               (c1, Inr (True, [(''edpm-0'', newIPSet\<lparr>ipset_Networks := [ctlplaneNet]\<rparr>)]))"
    and c1: "c1 = conflictCluster
                \<lparr>ipSets := [''edpm-0'' \<mapsto> newIPSet\<lparr>ipset_Networks := [ctlplaneNet]\<rparr>],
                 requests := [UpsertIPSet ''edpm-0'' [ctlplaneNet]]\<rparr>"
    by (simp add: sample_defs ipam_defs)
  have fails: "upsertErr c1 (requests c1) (upsertOf ?tmpl (sampleNode ''edpm-1'')) =
                 Some (ApiError ''conflict'')"
    by (simp add: c1 upsertOf_def netsOf_def sample_defs)
  from reserveIPs_fail_fast [OF listed nodes prefix part fails, of id]
  have "EnsureIPSets id conflictCluster threeNodes =
          (c1\<lparr>requests := requests c1 @ [upsertOf ?tmpl (sampleNode ''edpm-1'')]\<rparr>,
           threeNodes\<lparr>StatusConditions :=
             MarkFalse NodeSetIPReservationReadyCondition ErrorReason SeverityError
               NodeSetIPReservationReadyErrorMessage (StatusConditions threeNodes)\<rparr>,
           ([], False, Some (ApiError ''conflict'')))"
    by simp
  then show ?thesis
    using listed(1) nodes part
    by (simp add: c1 upsertOf_def netsOf_def sample_defs condState_def MarkFalse_def)
qed

text \<open>
  C7, amended.  When no node and not the template has an attachment, \<open>EnsureIPSets\<close>
  sends no request and leaves the cluster as it is.  If the NetConfig list call
  succeeds, the reservation condition is removed (NotApplicable) and the result is
  success with an empty map; if that call fails, its error is returned and the
  condition is marked with the error reason.
\<close>

theorem EnsureIPSets_no_attachments:
  assumes "\<forall>node \<in> set (Nodes instance). Networks node = []"
    and "NodeTemplate_Networks instance = []"
  shows "EnsureIPSets rng c instance =
           (case netConfigList c of
              Inr n \<Rightarrow>
                (c,
                 instance\<lparr>StatusConditions :=
                   Remove NodeSetIPReservationReadyCondition (StatusConditions instance)\<rparr>,
                 ([], True, None))
            | Inl e \<Rightarrow>
                (c,
                 instance\<lparr>StatusConditions :=
                   MarkFalse NodeSetIPReservationReadyCondition ErrorReason SeverityError
                     NodeSetIPReservationReadyErrorMessage (StatusConditions instance)\<rparr>,
                 ([], False, Some e)))
         \<and> condState (Remove NodeSetIPReservationReadyCondition (StatusConditions instance))
              NodeSetIPReservationReadyCondition = Some CondNotApplicable"
  using assms reserveNodes_none [OF assms(1), of c False "[]"]
  by (simp add: EnsureIPSets_def reserveIPs_def condState_def Remove_def split: sum.splits)

theorem EnsureIPSets_no_attachments_witness:
  "list_all (\<lambda>node. Networks node = []) (Nodes (sampleNodeSet [bareNode ''edpm-0'']))
   \<and> NodeTemplate_Networks (sampleNodeSet [bareNode ''edpm-0'']) = []
   \<and> EnsureIPSets id (sampleCluster 1 [] Map.empty) (sampleNodeSet [bareNode ''edpm-0'']) =
        (sampleCluster 1 [] Map.empty, sampleNodeSet [bareNode ''edpm-0''], ([], True, None))
   \<and> condState (StatusConditions (sampleNodeSet [bareNode ''edpm-0'']))
        NodeSetIPReservationReadyCondition = Some CondNotApplicable"
proof -
  have h1: "\<forall>node \<in> set (Nodes (sampleNodeSet [bareNode ''edpm-0''])). Networks node = []"
    by (simp add: sampleNodeSet_def bareNode_def)
  have h2: "NodeTemplate_Networks (sampleNodeSet [bareNode ''edpm-0'']) = []"
    by (simp add: sampleNodeSet_def)
  have same: "Remove NodeSetIPReservationReadyCondition
                (StatusConditions (sampleNodeSet [bareNode ''edpm-0''])) =
              StatusConditions (sampleNodeSet [bareNode ''edpm-0''])"
    by (simp add: Remove_def sampleNodeSet_def)
  from EnsureIPSets_no_attachments [OF h1 h2, of id "sampleCluster 1 [] Map.empty"] h1 h2 same
  show ?thesis
    by (simp add: sampleCluster_def list_all_iff)
qed

text \<open>
  C7 as stated fails when the NetConfig list call fails: with no attachment anywhere,
  \<open>EnsureIPSets\<close> then returns the error and marks the condition with the error reason.
\<close>

theorem EnsureIPSets_no_attachments_counterexample:
  "Networks (bareNode ''edpm-0'') = []
   \<and> NodeTemplate_Networks (sampleNodeSet [bareNode ''edpm-0'']) = []
   \<and> requests (fst (EnsureIPSets id listErrorCluster (sampleNodeSet [bareNode ''edpm-0'']))) = []
   \<and> snd (snd (EnsureIPSets id listErrorCluster (sampleNodeSet [bareNode ''edpm-0'']))) =
        ([], False, Some (ApiError ''timeout''))
   \<and> condState (StatusConditions (fst (snd
          (EnsureIPSets id listErrorCluster (sampleNodeSet [bareNode ''edpm-0''])))))
        NodeSetIPReservationReadyCondition = Some CondError"
  by (simp add: sample_defs ipam_defs)

section \<open>The guard of the DNS pass\<close>

lemma CheckDNSService_keeps:
  "Hostnames (fst (CheckDNSService c dns)) = Hostnames dns
   \<and> AllIPs (fst (CheckDNSService c dns)) = AllIPs dns
   \<and> CtlplaneSearchDomain (fst (CheckDNSService c dns)) = CtlplaneSearchDomain dns"
  by (simp add: CheckDNSService_def split: sum.splits list.splits)

lemma guard_closed_EnsureDNSData:
  assumes "CheckDNSService c dns = (dns1, e)"
    and "e \<noteq> None \<or> \<not> Ready dns1 \<or> ClusterAddresses dns1 = None"
  shows "fst (EnsureDNSData isFQDN c instance dns allIPSets) = c"
    and "fst (snd (snd (EnsureDNSData isFQDN c instance dns allIPSets))) = dns1"
    and "snd (snd (snd (EnsureDNSData isFQDN c instance dns allIPSets))) = e"
  using assms by (simp_all add: EnsureDNSData_def Let_def)

lemma guard_open_EnsureDNSData:
  assumes "CheckDNSService c dns = (dns1, None)"
    and "Ready dns1" and "ClusterAddresses dns1 \<noteq> None"
  shows "requests (fst (EnsureDNSData isFQDN c instance dns allIPSets)) =
           requests c @ [UpsertDNSData (Name instance)
             (allRecords isFQDN (NodeTemplate_Networks instance) allIPSets (Nodes instance))]"
proof -
  have "fst (EnsureDNSData isFQDN c instance dns allIPSets) =
          fst (createOrPatchDNSData isFQDN c instance dns1 allIPSets)"
    using assms
    by (simp add: EnsureDNSData_def del: not_None_eq split: prod.splits option.splits sum.splits)
  then show ?thesis
    by (simp add: createOrPatchDNSData_request)
qed

text \<open>
  C5.  \<open>EnsureDNSData\<close> sends a request (the upsert of \<open>createOrPatchDNSData\<close>) if
  and only if the service check returned no error, left the receiver ready and left
  its cluster addresses non-nil.  Otherwise the pass returns with the cluster and the
  receiver as the check left them: the host name and address maps and the search domain
  are untouched, and the error of the check is returned.
\<close>

theorem EnsureDNSData_guard:
  assumes check: "CheckDNSService c dns = (dns1, e)"
  shows "(requests (fst (EnsureDNSData isFQDN c instance dns allIPSets)) \<noteq> requests c
            \<longleftrightarrow> e = None \<and> Ready dns1 \<and> ClusterAddresses dns1 \<noteq> None)
       \<and> (e \<noteq> None \<or> \<not> Ready dns1 \<or> ClusterAddresses dns1 = None \<longrightarrow>
            fst (EnsureDNSData isFQDN c instance dns allIPSets) = c
          \<and> fst (snd (snd (EnsureDNSData isFQDN c instance dns allIPSets))) = dns1
          \<and> Hostnames dns1 = Hostnames dns \<and> AllIPs dns1 = AllIPs dns
          \<and> CtlplaneSearchDomain dns1 = CtlplaneSearchDomain dns
          \<and> snd (snd (snd (EnsureDNSData isFQDN c instance dns allIPSets))) = e)"
proof (cases "e = None \<and> Ready dns1 \<and> ClusterAddresses dns1 \<noteq> None")
  case True
  then have "CheckDNSService c dns = (dns1, None)"
    using check by simp
  from guard_open_EnsureDNSData [OF this, of isFQDN "instance" allIPSets] True show ?thesis
    by (simp del: not_None_eq)
next
  case False
  then have closed: "e \<noteq> None \<or> \<not> Ready dns1 \<or> ClusterAddresses dns1 = None"
    by auto
  from guard_closed_EnsureDNSData [OF check closed, of isFQDN "instance" allIPSets]
    CheckDNSService_keeps [of c dns] check False
  show ?thesis
    by simp
qed

theorem EnsureDNSData_guard_witness:
  "CheckDNSService (sampleCluster 1 [pendingDNSMasq] Map.empty) freshDNS =
     (freshDNS\<lparr>Ready := False\<rparr>, None)
   \<and> EnsureDNSData dotted (sampleCluster 1 [pendingDNSMasq] Map.empty) twoNodes freshDNS twoDomains =
       (sampleCluster 1 [pendingDNSMasq] Map.empty,
        fst (snd (EnsureDNSData dotted (sampleCluster 1 [pendingDNSMasq] Map.empty) twoNodes
                    freshDNS twoDomains)),
        freshDNS\<lparr>Ready := False\<rparr>, None)
   \<and> CheckDNSService (sampleCluster 1 [readyDNSMasq] Map.empty) freshDNS =
       (freshDNS\<lparr>ClusterAddresses := Some [''10.217.4.10''],
                 ServerAddresses := Some [''192.168.122.80''], Ready := True\<rparr>, None)
   \<and> requests (fst (EnsureDNSData dotted (sampleCluster 1 [readyDNSMasq] Map.empty) twoNodes
                       freshDNS twoDomains)) =
       [UpsertDNSData ''edpm''
          [\<lparr>host_IP = ''172.20.0.10'', host_Hostnames = [''edpm-0.ctlplane.example.com'']\<rparr>,
           \<lparr>host_IP = ''172.20.1.10'', host_Hostnames = [''edpm-1.other.example.org'']\<rparr>]]"
proof -
  let ?pending = "sampleCluster 1 [pendingDNSMasq] Map.empty"
  let ?ready = "sampleCluster 1 [readyDNSMasq] Map.empty"
  have check1: "CheckDNSService ?pending freshDNS = (freshDNS\<lparr>Ready := False\<rparr>, None)"
    by (simp add: CheckDNSService_def sampleCluster_def pendingDNSMasq_def)
  have check2: "CheckDNSService ?ready freshDNS =
       (freshDNS\<lparr>ClusterAddresses := Some [''10.217.4.10''],
                 ServerAddresses := Some [''192.168.122.80''], Ready := True\<rparr>, None)"
    by (simp add: CheckDNSService_def sampleCluster_def readyDNSMasq_def)
  have nr: "\<not> Ready (freshDNS\<lparr>Ready := False\<rparr>)"
    by simp
  have ok: "Ready (freshDNS\<lparr>ClusterAddresses := Some [''10.217.4.10''],
                 ServerAddresses := Some [''192.168.122.80''], Ready := True\<rparr>)"
       "ClusterAddresses (freshDNS\<lparr>ClusterAddresses := Some [''10.217.4.10''],
                 ServerAddresses := Some [''192.168.122.80''], Ready := True\<rparr>) \<noteq> None"
    by simp_all
  have recs: "allRecords dotted (NodeTemplate_Networks twoNodes) twoDomains (Nodes twoNodes) =
      [\<lparr>host_IP = ''172.20.0.10'', host_Hostnames = [''edpm-0.ctlplane.example.com'']\<rparr>,
       \<lparr>host_IP = ''172.20.1.10'', host_Hostnames = [''edpm-1.other.example.org'']\<rparr>]"
    by (simp add: allRecords_def nodeRecords_def participates_def recordOf_def aliasesOf_def
        sample_defs ipam_defs)
  from EnsureDNSData_guard [OF check1, of dotted twoNodes twoDomains] nr
  have closed: "fst (EnsureDNSData dotted ?pending twoNodes freshDNS twoDomains) = ?pending
      \<and> fst (snd (snd (EnsureDNSData dotted ?pending twoNodes freshDNS twoDomains))) =
          freshDNS\<lparr>Ready := False\<rparr>
      \<and> snd (snd (snd (EnsureDNSData dotted ?pending twoNodes freshDNS twoDomains))) = None"
    by simp
  from EnsureDNSData_guard [OF check2, of dotted twoNodes twoDomains] ok
  have "requests (fst (EnsureDNSData dotted ?ready twoNodes freshDNS twoDomains)) \<noteq>
          requests ?ready"
    by simp
  moreover have "requests (fst (EnsureDNSData dotted ?ready twoNodes freshDNS twoDomains)) =
      requests ?ready @ [UpsertDNSData (Name twoNodes)
        (allRecords dotted (NodeTemplate_Networks twoNodes) twoDomains (Nodes twoNodes))]"
    by (rule guard_open_EnsureDNSData [OF check2 ok])
  ultimately show ?thesis
    using check1 check2 closed recs
    by (simp add: prod_eq_iff sampleCluster_def twoNodes_def sampleNodeSet_def)
qed

lemma EnsureDNSData_pending_removed:
  assumes "dnsmasqList c = Inr (d # ds)" and "\<not> dnsmasq_IsReady d"
    and "ClusterAddresses dns = None"
  shows "EnsureDNSData isFQDN c instance dns allIPSets =
           (c, markDNS (Remove NodeSetDNSDataReadyCondition) (markDNS dnsWaiting instance),
            dns\<lparr>Ready := False\<rparr>, None)"
    and "StatusConditions (fst (snd (EnsureDNSData isFQDN c instance dns allIPSets)))
           NodeSetDNSDataReadyCondition = None"
  using assms
  by (simp_all add: EnsureDNSData_def CheckDNSService_def Let_def markDNS_def Remove_def)

text \<open>
  C6, amended.  On a receiver whose server and cluster addresses are nil, with no
  DNSMasq resource in the namespace, \<open>CheckDNSService\<close> sets the receiver ready,
  leaves both address fields nil and returns no error; \<open>EnsureDNSData\<close> removes the
  DNS condition (NotApplicable), returns no error and leaves the cluster as it is.
\<close>

theorem EnsureDNSData_no_dnsmasq:
  assumes "dnsmasqList c = Inr []"
    and "ServerAddresses dns = None" and "ClusterAddresses dns = None"
  shows "CheckDNSService c dns = (dns\<lparr>Ready := True\<rparr>, None)
       \<and> ServerAddresses (fst (CheckDNSService c dns)) = None
       \<and> ClusterAddresses (fst (CheckDNSService c dns)) = None
       \<and> EnsureDNSData isFQDN c instance dns allIPSets =
           (c, markDNS (Remove NodeSetDNSDataReadyCondition) instance, dns\<lparr>Ready := True\<rparr>, None)
       \<and> condState (StatusConditions (fst (snd (EnsureDNSData isFQDN c instance dns allIPSets))))
            NodeSetDNSDataReadyCondition = Some CondNotApplicable"
  using assms
  by (simp add: EnsureDNSData_def CheckDNSService_def Let_def markDNS_def Remove_def condState_def)

theorem EnsureDNSData_no_dnsmasq_witness:
  "dnsmasqList (sampleCluster 1 [] Map.empty) = Inr []
   \<and> ServerAddresses freshDNS = None \<and> ClusterAddresses freshDNS = None
   \<and> CheckDNSService (sampleCluster 1 [] Map.empty) freshDNS = (freshDNS\<lparr>Ready := True\<rparr>, None)
   \<and> requests (fst (EnsureDNSData dotted (sampleCluster 1 [] Map.empty) waitingNodes freshDNS
                       twoDomains)) = []
   \<and> snd (snd (snd (EnsureDNSData dotted (sampleCluster 1 [] Map.empty) waitingNodes freshDNS
                       twoDomains))) = None
   \<and> condState (StatusConditions (fst (snd
          (EnsureDNSData dotted (sampleCluster 1 [] Map.empty) waitingNodes freshDNS twoDomains))))
        NodeSetDNSDataReadyCondition = Some CondNotApplicable"
proof -
  have h1: "dnsmasqList (sampleCluster 1 [] Map.empty) = Inr []"
    by (simp add: sampleCluster_def)
  have h2: "ServerAddresses freshDNS = None" and h3: "ClusterAddresses freshDNS = None"
    by (simp_all add: freshDNS_def)
  let ?c = "sampleCluster 1 [] Map.empty"
  let ?run = "EnsureDNSData dotted ?c waitingNodes freshDNS twoDomains"
  note at_sample = EnsureDNSData_no_dnsmasq [OF h1 h2 h3, of dotted waitingNodes twoDomains]
  from at_sample have check: "CheckDNSService ?c freshDNS = (freshDNS\<lparr>Ready := True\<rparr>, None)"
    by blast
  from at_sample have run: "?run =
      (?c, markDNS (Remove NodeSetDNSDataReadyCondition) waitingNodes,
       freshDNS\<lparr>Ready := True\<rparr>, None)"
    by blast
  from at_sample have state: "condState (StatusConditions (fst (snd ?run)))
      NodeSetDNSDataReadyCondition = Some CondNotApplicable"
    by blast
  have "requests (fst ?run) = requests ?c"
    unfolding run by simp
  then have reqs: "requests (fst ?run) = []"
    by (simp add: sampleCluster_def)
  have noerr: "snd (snd (snd ?run)) = None"
    unfolding run by simp
  from h1 h2 h3 check reqs noerr state show ?thesis
    by blast
qed

text \<open>
  C6 as stated fails on a receiver that still holds cluster addresses: with no DNSMasq
  resource the check leaves them in place, the guard lets the pass through, and the DNS records are
  built and written.
\<close>

theorem EnsureDNSData_no_dnsmasq_counterexample:
  "dnsmasqList (sampleCluster 1 [] Map.empty) = Inr []
   \<and> ClusterAddresses (fst (CheckDNSService (sampleCluster 1 [] Map.empty) staleDNS)) =
        Some [''10.217.4.10'']
   \<and> requests (fst (EnsureDNSData dotted (sampleCluster 1 [] Map.empty) twoNodes staleDNS
                       twoDomains)) =
        [UpsertDNSData ''edpm''
          [\<lparr>host_IP = ''172.20.0.10'', host_Hostnames = [''edpm-0.ctlplane.example.com'']\<rparr>,
           \<lparr>host_IP = ''172.20.1.10'', host_Hostnames = [''edpm-1.other.example.org'']\<rparr>]]
   \<and> condState (StatusConditions (fst (snd
          (EnsureDNSData dotted (sampleCluster 1 [] Map.empty) twoNodes staleDNS twoDomains))))
        NodeSetDNSDataReadyCondition = Some CondWaiting"
  by (simp add: sample_defs ipam_defs)

text \<open>
  C9, amended.  When the first DNSMasq resource is ready with non-nil cluster addresses,
  the upsert of the DNSData resource succeeds, the Get that follows succeeds, and the
  DNSData resource is ready, the DNS condition ends the pass Ready, whatever it was
  before, no error is returned and the receiver is ready.
\<close>

theorem EnsureDNSData_ready:
  assumes dnsmasq: "dnsmasqList c = Inr (d # ds)" "dnsmasq_IsReady d" "DNSClusterAddresses d \<noteq> None"
    and upsert: "upsertErr c (requests c)
                   (UpsertDNSData (Name instance)
                      (allRecords isFQDN (NodeTemplate_Networks instance) allIPSets (Nodes instance)))
                 = None"
    and get: "getDNSDataErr c = None"
    and stored: "dnsDatas c (Name instance) = Some dd" "dnsdata_IsReady dd"
  shows "condState (StatusConditions (fst (snd (EnsureDNSData isFQDN c instance dns allIPSets))))
           NodeSetDNSDataReadyCondition = Some CondReady
       \<and> snd (snd (snd (EnsureDNSData isFQDN c instance dns allIPSets))) = None
       \<and> Ready (fst (snd (snd (EnsureDNSData isFQDN c instance dns allIPSets))))"
  using assms
  by (simp add: EnsureDNSData_def CheckDNSService_def createOrPatchDNSData_def
      CreateOrPatchDNSData_def GetDNSData_def addNodes_records Let_def markDNS_def dnsReady_def
      MarkTrue_def condState_def del: not_None_eq)

theorem EnsureDNSData_ready_witness:
  "dnsmasqList readyDataCluster = Inr (readyDNSMasq # [])
   \<and> dnsmasq_IsReady readyDNSMasq
   \<and> getDNSDataErr readyDataCluster = None
   \<and> condState (StatusConditions waitingNodes) NodeSetDNSDataReadyCondition = Some CondWaiting
   \<and> condState (StatusConditions (fst (snd
          (EnsureDNSData dotted readyDataCluster waitingNodes freshDNS twoDomains))))
        NodeSetDNSDataReadyCondition = Some CondReady
   \<and> snd (snd (snd (EnsureDNSData dotted readyDataCluster waitingNodes freshDNS twoDomains))) = None"
proof -
  have h1: "dnsmasqList readyDataCluster = Inr (readyDNSMasq # [])"
    by (simp add: readyDataCluster_def sampleCluster_def)
  have h2: "dnsmasq_IsReady readyDNSMasq" and h3: "DNSClusterAddresses readyDNSMasq \<noteq> None"
    by (simp_all add: readyDNSMasq_def)
  have h4: "upsertErr readyDataCluster (requests readyDataCluster)
              (UpsertDNSData (Name waitingNodes)
                 (allRecords dotted (NodeTemplate_Networks waitingNodes) twoDomains
                    (Nodes waitingNodes))) = None"
    by (simp add: readyDataCluster_def sampleCluster_def)
  have h5: "getDNSDataErr readyDataCluster = None"
    by (simp add: readyDataCluster_def sampleCluster_def)
  have h6: "dnsDatas readyDataCluster (Name waitingNodes) =
      Some \<lparr>Hosts = [], DNSDataLabelSelectorValue = ''dnsdata'', dnsdata_IsReady = True\<rparr>"
    by (simp add: readyDataCluster_def sampleCluster_def waitingNodes_def twoNodes_def
        sampleNodeSet_def)
  have h7: "dnsdata_IsReady
      \<lparr>Hosts = [], DNSDataLabelSelectorValue = ''dnsdata'', dnsdata_IsReady = True\<rparr>"
    by simp
  have before: "condState (StatusConditions waitingNodes) NodeSetDNSDataReadyCondition =
      Some CondWaiting"
    by (simp add: waitingNodes_def dnsWaiting_def MarkFalse_def condState_def)
  from EnsureDNSData_ready [OF h1 h2 h3 h4 h5 h6 h7, of freshDNS] h1 h2 h5 before
  show ?thesis
    by simp
qed

text \<open>
  C9 as stated fails when the DNSData resource is created in this pass: the upsert
  succeeds, the resource is not ready yet, and the condition stays Waiting.
\<close>

theorem EnsureDNSData_ready_counterexample:
  "dnsmasqList (sampleCluster 1 [readyDNSMasq] Map.empty) = Inr [readyDNSMasq]
   \<and> dnsmasq_IsReady readyDNSMasq
   \<and> condState (StatusConditions waitingNodes) NodeSetDNSDataReadyCondition = Some CondWaiting
   \<and> snd (snd (snd (EnsureDNSData dotted (sampleCluster 1 [readyDNSMasq] Map.empty) waitingNodes
                       freshDNS twoDomains))) = None
   \<and> map_option Hosts (dnsDatas (fst (EnsureDNSData dotted
          (sampleCluster 1 [readyDNSMasq] Map.empty) waitingNodes freshDNS twoDomains)) ''edpm'') =
        Some [\<lparr>host_IP = ''172.20.0.10'', host_Hostnames = [''edpm-0.ctlplane.example.com'']\<rparr>,
              \<lparr>host_IP = ''172.20.1.10'', host_Hostnames = [''edpm-1.other.example.org'']\<rparr>]
   \<and> condState (StatusConditions (fst (snd
          (EnsureDNSData dotted (sampleCluster 1 [readyDNSMasq] Map.empty) waitingNodes freshDNS
             twoDomains))))
        NodeSetDNSDataReadyCondition = Some CondWaiting"
  by (simp add: sample_defs ipam_defs waitingNodes_def)

section \<open>The not-ready DNS service\<close>

text \<open>
  C3.  One DNSMasq resource that is not ready, a receiver as constructed, a node set
  with no DNS condition yet.  The check reports not ready with nil addresses and no
  error, and no request is sent; but the DNS condition, marked False with the waiting
  message, is removed again by the test on the nil cluster addresses that follows, so
  the pass ends with no DNS condition (NotApplicable), not Waiting.
\<close>

theorem EnsureDNSData_pending_dnsmasq:
  "dnsmasqList (sampleCluster 1 [pendingDNSMasq] Map.empty) = Inr [pendingDNSMasq]
   \<and> dnsmasq_IsReady pendingDNSMasq = False
   \<and> CheckDNSService (sampleCluster 1 [pendingDNSMasq] Map.empty) freshDNS =
        (freshDNS\<lparr>Ready := False\<rparr>, None)
   \<and> ClusterAddresses (freshDNS\<lparr>Ready := False\<rparr>) = None
   \<and> ServerAddresses (freshDNS\<lparr>Ready := False\<rparr>) = None
   \<and> requests (fst (EnsureDNSData dotted (sampleCluster 1 [pendingDNSMasq] Map.empty) twoNodes
                       freshDNS twoDomains)) = []
   \<and> snd (snd (snd (EnsureDNSData dotted (sampleCluster 1 [pendingDNSMasq] Map.empty) twoNodes
                       freshDNS twoDomains))) = None
   \<and> StatusConditions (fst (snd (EnsureDNSData dotted
          (sampleCluster 1 [pendingDNSMasq] Map.empty) twoNodes freshDNS twoDomains)))
        NodeSetDNSDataReadyCondition = None
   \<and> condState (StatusConditions (fst (snd (EnsureDNSData dotted
          (sampleCluster 1 [pendingDNSMasq] Map.empty) twoNodes freshDNS twoDomains))))
        NodeSetDNSDataReadyCondition = Some CondNotApplicable"
  by (simp add: sample_defs ipam_defs)

theorem EnsureDNSData_pending_dnsmasq_witness:
  "condState (StatusConditions (fst (snd (EnsureDNSData dotted
      (sampleCluster 1 [pendingDNSMasq] Map.empty) twoNodes freshDNS twoDomains))))
     NodeSetDNSDataReadyCondition \<noteq> Some CondWaiting"
  using EnsureDNSData_pending_dnsmasq by simp

section \<open>The search domain\<close>

lemma addReservation_overwrites:
  assumes "ctlplaneSearchDomain st = []" and "ToLower (Network res) = CtlPlaneNetwork"
  shows "CtlplaneSearchDomain (dnsOut (addReservation isFQDN h s res st)) = DNSDomain res"
    and "ctlplaneSearchDomain (addReservation isFQDN h s res st) = []"
  using assms by (simp_all add: addReservation_def Let_def split: prod.splits)

lemma createOrPatchDNSData_part000_first:
  "fst (snd (createOrPatchDNSData_part000 (sampleCluster 1 [readyDNSMasq] Map.empty) twoNodes
               twoDomains)) = ''ctlplane.example.com''"
  by (simp add: createOrPatchDNSData_part000_def addReservation_part000_def sample_defs ipam_defs)

text \<open>
  C2.  Two nodes, each with one control-plane reservation, the domains differing.  The
  test that guards the search domain reads the local variable, which is never assigned,
  so every control-plane reservation overwrites the field: the search domain left in
  the receiver is the domain of the last such reservation, not of the first.
\<close>

theorem createOrPatchDNSData_search_domain:
  "Nodes twoNodes = [sampleNode ''edpm-0'', sampleNode ''edpm-1'']
   \<and> map_option Reservation (map_of twoDomains ''edpm-0'') = Some [edpm0Reservation]
   \<and> map_option Reservation (map_of twoDomains ''edpm-1'') = Some [otherReservation]
   \<and> ToLower (Network edpm0Reservation) = CtlPlaneNetwork
   \<and> ToLower (Network otherReservation) = CtlPlaneNetwork
   \<and> DNSDomain edpm0Reservation = ''ctlplane.example.com''
   \<and> DNSDomain otherReservation = ''other.example.org''
   \<and> CtlplaneSearchDomain (fst (snd (createOrPatchDNSData dotted
          (sampleCluster 1 [readyDNSMasq] Map.empty) twoNodes freshDNS twoDomains))) =
        ''other.example.org''"
  by (simp add: sample_defs ipam_defs)

theorem createOrPatchDNSData_search_domain_witness:
  "CtlplaneSearchDomain (fst (snd (createOrPatchDNSData dotted
      (sampleCluster 1 [readyDNSMasq] Map.empty) twoNodes freshDNS twoDomains))) \<noteq>
     DNSDomain edpm0Reservation"
  using createOrPatchDNSData_search_domain by simp

section \<open>Records without names\<close>

text \<open>
  C10.  For a reservation of a participating node whose joined name equals the host
  name, on a network other than the control-plane network, the request of
  \<open>createOrPatchDNSData\<close> carries a record with the reservation's address and an empty
  list of names; when the upsert succeeds, the stored DNSData holds that list.
\<close>

theorem createOrPatchDNSData_empty_aliases:
  assumes "node \<in> set (Nodes instance)"
    and "participates (NodeTemplate_Networks instance) node"
    and "map_of allIPSets (HostName node) = Some ipSet"
    and "res \<in> set (Reservation ipSet)"
    and same: "shortNameOf (HostName node) @ ''.'' @ DNSDomain res = HostName node"
    and other: "ToLower (Network res) \<noteq> CtlPlaneNetwork"
  shows "\<exists>hosts.
           requests (fst (createOrPatchDNSData isFQDN c instance dns allIPSets)) =
             requests c @ [UpsertDNSData (Name instance) hosts]
         \<and> \<lparr>host_IP = Address res, host_Hostnames = []\<rparr> \<in> set hosts
         \<and> (snd (snd (createOrPatchDNSData isFQDN c instance dns allIPSets)) = None \<longrightarrow>
              (\<exists>d. dnsDatas (fst (createOrPatchDNSData isFQDN c instance dns allIPSets))
                      (Name instance) = Some d
                 \<and> Hosts d = hosts))"
proof -
  let ?hosts = "allRecords isFQDN (NodeTemplate_Networks instance) allIPSets (Nodes instance)"
  have "recordOf isFQDN (HostName node) res = \<lparr>host_IP = Address res, host_Hostnames = []\<rparr>"
    using same other by (simp add: recordOf_def aliasesOf_def joinDot_def Let_def)
  with record_in_allRecords [OF assms(1-4), of isFQDN]
  have mem: "\<lparr>host_IP = Address res, host_Hostnames = []\<rparr> \<in> set ?hosts"
    by simp
  show ?thesis
  proof (rule exI [of _ ?hosts], intro conjI impI)
    show "requests (fst (createOrPatchDNSData isFQDN c instance dns allIPSets)) =
            requests c @ [UpsertDNSData (Name instance) ?hosts]"
      by (rule createOrPatchDNSData_request)
    show "\<lparr>host_IP = Address res, host_Hostnames = []\<rparr> \<in> set ?hosts"
      by (rule mem)
    assume "snd (snd (createOrPatchDNSData isFQDN c instance dns allIPSets)) = None"
    then show "\<exists>d. dnsDatas (fst (createOrPatchDNSData isFQDN c instance dns allIPSets))
                     (Name instance) = Some d \<and> Hosts d = ?hosts"
      by (rule createOrPatchDNSData_stored)
  qed
qed

theorem createOrPatchDNSData_empty_aliases_witness:
  "sampleNode storageHost \<in> set (Nodes (sampleNodeSet [sampleNode storageHost]))
   \<and> shortNameOf storageHost @ ''.'' @ DNSDomain storageReservation = storageHost
   \<and> requests (fst (createOrPatchDNSData dotted (sampleCluster 1 [readyDNSMasq] Map.empty)
        (sampleNodeSet [sampleNode storageHost]) freshDNS
        [(storageHost, sampleIPSet Map.empty [storageReservation])])) =
      [UpsertDNSData ''edpm'' [\<lparr>host_IP = ''172.18.0.10'', host_Hostnames = []\<rparr>]]
   \<and> map_option Hosts (dnsDatas (fst (createOrPatchDNSData dotted
        (sampleCluster 1 [readyDNSMasq] Map.empty)
        (sampleNodeSet [sampleNode storageHost]) freshDNS
        [(storageHost, sampleIPSet Map.empty [storageReservation])])) ''edpm'') =
      Some [\<lparr>host_IP = ''172.18.0.10'', host_Hostnames = []\<rparr>]"
proof -
  let ?inst = "sampleNodeSet [sampleNode storageHost]"
  let ?m = "[(storageHost, sampleIPSet Map.empty [storageReservation])]"
  let ?c = "sampleCluster 1 [readyDNSMasq] Map.empty"
  let ?run = "createOrPatchDNSData dotted ?c ?inst freshDNS ?m"
  have h1: "sampleNode storageHost \<in> set (Nodes ?inst)"
    by (simp add: sampleNodeSet_def)
  have h2: "participates (NodeTemplate_Networks ?inst) (sampleNode storageHost)"
    by (simp add: participates_def sampleNode_def)
  have h3: "map_of ?m (HostName (sampleNode storageHost)) =
      Some (sampleIPSet Map.empty [storageReservation])"
    by (simp add: sampleNode_def)
  have h4: "storageReservation \<in> set (Reservation (sampleIPSet Map.empty [storageReservation]))"
    by (simp add: sampleIPSet_def)
  have h5: "shortNameOf (HostName (sampleNode storageHost)) @ ''.'' @ DNSDomain storageReservation =
      HostName (sampleNode storageHost)"
    by (simp add: sampleNode_def storageHost_def shortNameOf_def storageReservation_def
        sampleReservation_def)
  have h6: "ToLower (Network storageReservation) \<noteq> CtlPlaneNetwork"
    by (simp add: storageReservation_def sampleReservation_def ToLower_def CtlPlaneNetwork_def)
  have ok: "snd (snd ?run) = None"
    by (simp add: createOrPatchDNSData_def CreateOrPatchDNSData_def sampleCluster_def Let_def)
  have len: "allRecords dotted (NodeTemplate_Networks ?inst) ?m (Nodes ?inst) =
      [recordOf dotted storageHost storageReservation]"
    by (simp add: allRecords_def nodeRecords_def participates_def sampleNodeSet_def
        sampleNode_def sampleIPSet_def)
  from createOrPatchDNSData_empty_aliases [OF h1 h2 h3 h4 h5 h6, of dotted ?c freshDNS] ok
  obtain hosts d where
    req: "requests (fst ?run) = requests ?c @ [UpsertDNSData (Name ?inst) hosts]"
    and mem: "\<lparr>host_IP = Address storageReservation, host_Hostnames = []\<rparr> \<in> set hosts"
    and stored: "dnsDatas (fst ?run) (Name ?inst) = Some d" "Hosts d = hosts"
    by blast
  from req have "hosts = [recordOf dotted storageHost storageReservation]"
    by (simp add: createOrPatchDNSData_request len)
  with mem have hosts: "hosts = [\<lparr>host_IP = ''172.18.0.10'', host_Hostnames = []\<rparr>]"
    by (simp add: storageReservation_def sampleReservation_def)
  have name: "Name ?inst = ''edpm''" and empty: "requests ?c = []"
    by (simp_all add: sampleNodeSet_def sampleCluster_def)
  from h1 h5 req stored hosts name empty show ?thesis
    by (simp add: sampleNode_def)
qed

end
